theory Spec2Isabelle
  imports Main "HOL-Library.Word" "HOL-Library.Numeral_Type"
begin

unbundle bit_operations_syntax

section \<open>types.h: colours and scores\<close>

text \<open>
  \<^verbatim>\<open>enum Color { WHITE, BLACK, COLOR_NB = 2 };\<close>
  An unscoped enumeration without a fixed underlying type: its enumerators are the
  integers 0, 1 and 2 and its values are the integers 0..3, so a \<open>Color\<close> is modelled as
  the integer it holds.
\<close>

type_synonym Color = int

definition WHITE :: Color where "WHITE = 0"
definition BLACK :: Color where "BLACK = 1"
definition COLOR_NB :: Color where "COLOR_NB = 2"

text \<open>
  \<^verbatim>\<open>constexpr Color operator~(Color c) { return static_cast<Color>(c ^ 3); // Toggle color }\<close>
\<close>

definition operator_compl_Color :: "Color \<Rightarrow> Color" where
  "operator_compl_Color c = c XOR 3"






section \<open>types.h: pieces, squares and the record of what a move changes\<close>

text \<open>
  \<^verbatim>\<open>enum Piece : uint8_t { NO_PIECE = 0x00, BAN_PIECE = 0x0F, W_PIECE = 0x10,
  B_PIECE = 0x20, PIECE_NB = 64 };\<close> and \<^verbatim>\<open>enum Square : int { SQ_0 = 0, ..., SQ_NONE = 0,
  SQUARE_NB = 24, SQ_BEGIN = SQ_8, SQ_END = SQ_32 };\<close>
\<close>

type_synonym Piece = "8 word"
type_synonym Square = int

definition NO_PIECE :: Piece where "NO_PIECE = 0x00"
definition BAN_PIECE :: Piece where "BAN_PIECE = 0x0F"
definition W_PIECE :: Piece where "W_PIECE = 0x10"
definition B_PIECE :: Piece where "B_PIECE = 0x20"

definition SQ_NONE :: Square where "SQ_NONE = 0"
definition SQ_BEGIN :: Square where "SQ_BEGIN = 8"
definition SQ_END :: Square where "SQ_END = 32"

text \<open>
  \<^verbatim>\<open>struct DirtyPiece {
    int dirty_num;            // Number of changed pieces
    Piece piece[12];
    Piece handPiece[12];
    int handCount[12];
    Square from[12];          // From and to squares, which may be SQ_NONE
    Square to[12];
  };\<close>
  An array \<open>T a[12]\<close> is a function from the twelve indices (the type \<open>12\<close>) to \<open>T\<close>.
\<close>

record DirtyPiece =
  dirty_num :: int
  piece :: "12 \<Rightarrow> Piece"
  handPiece :: "12 \<Rightarrow> Piece"
  handCount :: "12 \<Rightarrow> int"
  "from" :: "12 \<Rightarrow> Square"
  to :: "12 \<Rightarrow> Square"

text \<open>
  The piece-change records a \<open>DirtyPiece\<close> holds: entries \<open>0 .. dirty_num - 1\<close> of the
  parallel arrays, each the piece, its source square and its destination square. Reading
  is defined only while \<open>dirty_num\<close> stays within the arrays.
\<close>

definition piece_changes :: "DirtyPiece \<Rightarrow> (Piece \<times> Square \<times> Square) list option" where
  "piece_changes dp =
     (if 0 \<le> dirty_num dp \<and> dirty_num dp \<le> 12
      then Some (map (\<lambda>i. (piece dp (of_nat i), from dp (of_nat i), to dp (of_nat i)))
                   [0 ..< nat (dirty_num dp)])
      else None)"

text \<open>
  The \<open>DirtyPiece\<close> that holds a given list of piece-change records in its first
  entries (the hand arrays empty); used to exhibit values of the structure.
\<close>

definition DirtyPiece_of :: "(Piece \<times> Square \<times> Square) list \<Rightarrow> DirtyPiece" where
  "DirtyPiece_of rs =
     \<lparr>dirty_num = int (length rs),
      piece = (\<lambda>i. fst (rs ! nat (Rep_bit0 i))),
      handPiece = (\<lambda>i. NO_PIECE),
      handCount = (\<lambda>i. 0),
      from = (\<lambda>i. fst (snd (rs ! nat (Rep_bit0 i)))),
      to = (\<lambda>i. snd (snd (rs ! nat (Rep_bit0 i))))\<rparr>"

text \<open>The index set of an array: all values of its index type.\<close>

definition indices :: "('i \<Rightarrow> 'v) \<Rightarrow> 'i set" where
  "indices a = UNIV"

section \<open>nnue_architecture.h and nnue_accumulator.h\<close>

text \<open>
  \<^verbatim>\<open>constexpr IndexType TransformedFeatureDimensions = 512;
  constexpr IndexType PSQTBuckets = 8;
  constexpr IndexType LayerStacks = 8;\<close>
\<close>

definition TransformedFeatureDimensions :: nat where "TransformedFeatureDimensions = 512"
definition PSQTBuckets :: nat where "PSQTBuckets = 8"
definition LayerStacks :: nat where "LayerStacks = 8"

text \<open>
  \<^verbatim>\<open>struct alignas(CacheLineSize) Accumulator {
    std::int16_t accumulation[2][TransformedFeatureDimensions];
    std::int32_t psqtAccumulation[2][PSQTBuckets];
    bool computed[2];
  };\<close>
  The index types \<open>2\<close>, \<open>512\<close> and \<open>8\<close> carry the array bounds.
\<close>

record Accumulator =
  accumulation :: "2 \<Rightarrow> 512 \<Rightarrow> 16 word"
  psqtAccumulation :: "2 \<Rightarrow> 8 \<Rightarrow> 32 word"
  computed :: "2 \<Rightarrow> bool"

text \<open>
  The layer types are class templates; each but \<open>InputSlice\<close> takes the layer before it
  as its first template argument.
  \<^verbatim>\<open>using InputLayer = InputSlice<TransformedFeatureDimensions * 2>;
  using HiddenLayer1 = ClippedReLU<AffineTransform<InputLayer, 16>>;
  using HiddenLayer2 = ClippedReLU<AffineTransform<HiddenLayer1, 32>>;
  using OutputLayer = AffineTransform<HiddenLayer2, 1>;
  using Network = Layers::OutputLayer;\<close>
\<close>

datatype Layer = InputSlice nat | AffineTransform Layer nat | ClippedReLU Layer

definition InputLayer :: Layer where
  "InputLayer = InputSlice (TransformedFeatureDimensions * 2)"

definition HiddenLayer1 :: Layer where
  "HiddenLayer1 = ClippedReLU (AffineTransform InputLayer 16)"

definition HiddenLayer2 :: Layer where
  "HiddenLayer2 = ClippedReLU (AffineTransform HiddenLayer1 32)"

definition OutputLayer :: Layer where
  "OutputLayer = AffineTransform HiddenLayer2 1"

definition Network :: Layer where
  "Network = OutputLayer"

text \<open>
  Modelled from the spec: the layer templates themselves (layers/input_slice.h,
  layers/affine_transform.h, layers/clipped_relu.h) are not among the sources. A layer
  first runs the layer before it and then its own transformation; an affine transform
  has the output width given as its template argument, the clipped activation keeps the
  width of its input, and the input slice hands on that many transformed features.
\<close>

fun OutputDimensions :: "Layer \<Rightarrow> nat" where
  "OutputDimensions (InputSlice n) = n"
| "OutputDimensions (AffineTransform prev n) = n"
| "OutputDimensions (ClippedReLU prev) = OutputDimensions prev"

datatype Stage = Affine nat nat | Clipped nat

text \<open>
  The transformations a network applies to its input, first to last: \<open>Affine i n\<close> maps
  \<open>i\<close> inputs to \<open>n\<close> outputs, \<open>Clipped n\<close> clips \<open>n\<close> values.
\<close>

fun stages :: "Layer \<Rightarrow> Stage list" where
  "stages (InputSlice n) = []"
| "stages (AffineTransform prev n) = stages prev @ [Affine (OutputDimensions prev) n]"
| "stages (ClippedReLU prev) = stages prev @ [Clipped (OutputDimensions prev)]"

section \<open>evaluate_nnue.h: the hash of the architecture and the deleters\<close>

text \<open>
  \<^verbatim>\<open>constexpr std::uint32_t HashValue =
      FeatureTransformer::get_hash_value() ^ Network::get_hash_value();\<close>
  The two component hashes are computed in headers that are not among the sources; they
  are the arguments here.
\<close>

definition HashValue :: "32 word \<Rightarrow> 32 word \<Rightarrow> 32 word" where
  "HashValue FeatureTransformer_hash Network_hash = FeatureTransformer_hash XOR Network_hash"

text \<open>
  A pointer is an address, \<open>0\<close> the null pointer. What a deleter does is the sequence of
  calls it makes.
  \<^verbatim>\<open>struct AlignedDeleter   { void operator()(T* ptr) const { ptr->~T(); std_aligned_free(ptr); } };
  struct LargePageDeleter { void operator()(T* ptr) const { ptr->~T(); aligned_large_pages_free(ptr); } };\<close>
\<close>

type_synonym ptr = nat

definition nullptr :: ptr where "nullptr = 0"

datatype MemCall = Destructor ptr | std_aligned_free ptr | aligned_large_pages_free ptr

definition AlignedDeleter :: "ptr \<Rightarrow> MemCall list" where
  "AlignedDeleter p = [Destructor p, std_aligned_free p]"

definition LargePageDeleter :: "ptr \<Rightarrow> MemCall list" where
  "LargePageDeleter p = [Destructor p, aligned_large_pages_free p]"

text \<open>
  \<^verbatim>\<open>using AlignedPtr = std::unique_ptr<T, AlignedDeleter<T>>;
  using LargePagePtr = std::unique_ptr<T, LargePageDeleter<T>>;\<close>
  Releasing a \<open>std::unique_ptr\<close> (its destructor, or \<open>reset()\<close>) calls the deleter on the
  held pointer when that is not null, and leaves the handle holding the null pointer. The
  result is the calls made and the pointer held afterwards.
\<close>

definition unique_ptr_reset :: "(ptr \<Rightarrow> MemCall list) \<Rightarrow> ptr \<Rightarrow> MemCall list \<times> ptr" where
  "unique_ptr_reset deleter p = (if p \<noteq> nullptr then (deleter p, nullptr) else ([], nullptr))"

definition AlignedPtr_reset :: "ptr \<Rightarrow> MemCall list \<times> ptr" where
  "AlignedPtr_reset = unique_ptr_reset AlignedDeleter"

definition LargePagePtr_reset :: "ptr \<Rightarrow> MemCall list \<times> ptr" where
  "LargePagePtr_reset = unique_ptr_reset LargePageDeleter"

section \<open>main\<close>

text \<open>
  \<^verbatim>\<open>int main(int argc, char* argv[]) {
    std::cout << engine_info() << std::endl;
    pieceMap.init();
    variants.init();
    CommandLine::init(argc, argv);
    UCI::init(Options);
    Tune::init();
    PSQT::init(variants.find(Options["UCI_Variant"])->second);
    Bitboards::init();
    Position::init();
    Bitbases::init();
    Endgames::init();
    Threads.set(size_t(Options["Threads"]));
    Search::clear(); // After threads are up
    Eval::NNUE::init();
    UCI::loop(argc, argv);
    Threads.set(0);
    variants.clear_all();
    pieceMap.clear_all();
    delete XBoard::stateMachine;
    return 0;
  }\<close>
  \<open>main\<close> is straight-line code: what it does is the sequence of calls it makes, in
  order. Its argument here is the value of the option \<open>Threads\<close>.
\<close>

datatype Call =
    engine_info | pieceMap_init | variants_init | CommandLine_init | UCI_init | Tune_init
  | PSQT_init | Bitboards_init | Position_init | Bitbases_init | Endgames_init
  | Threads_set nat | Search_clear | Eval_NNUE_init | UCI_loop
  | variants_clear_all | pieceMap_clear_all | delete_XBoard_stateMachine

definition main :: "nat \<Rightarrow> Call list" where
  "main threads =
     [engine_info, pieceMap_init, variants_init, CommandLine_init, UCI_init, Tune_init,
      PSQT_init, Bitboards_init, Position_init, Bitbases_init, Endgames_init,
      Threads_set threads, Search_clear, Eval_NNUE_init, UCI_loop,
      Threads_set 0, variants_clear_all, pieceMap_clear_all, delete_XBoard_stateMachine]"

text \<open>The calls made before the first call of \<open>c\<close>.\<close>

definition calls_before :: "Call \<Rightarrow> Call list \<Rightarrow> Call list" where
  "calls_before c cs = takeWhile (\<lambda>x. x \<noteq> c) cs"

section \<open>The accumulator's refresh and incremental update\<close>








































section \<open>Loading the weights\<close>

text \<open>
  Modelled from the spec: the Weight Store's \<open>load\<close> (evaluate_nnue.cpp) is not among
  the sources. A weight source is a sequence of bytes: "a fixed-width topology/version
  hash field, followed by raw quantized parameter arrays". The hash field has the width
  of \<open>HashValue\<close>, four bytes, read least significant byte first. \<open>load\<close> "fails with
  IncompatibleTopology if the header's hash does not match the hash computed from the
  compiled NetworkTopology, or with TruncatedData if fewer bytes are present than the
  topology requires. On success, the blob is allocated". Its result comes with the steps
  it took: reading the hash field, allocating the blob, reading parameter bytes.
\<close>

datatype LoadError = IncompatibleTopology | TruncatedData

datatype LoadStep = ReadHash | AllocateBlob nat | ReadParameters nat

record WeightBlob =
  parameters :: "8 word list"

definition read_hash :: "8 word list \<Rightarrow> (32 word \<times> 8 word list) option" where
  "read_hash src =
     (case src of
        b0 # b1 # b2 # b3 # rest \<Rightarrow>
          Some (ucast b0 OR push_bit 8 (ucast b1) OR push_bit 16 (ucast b2)
                  OR push_bit 24 (ucast b3), rest)
      | _ \<Rightarrow> None)"

definition load ::
  "32 word \<Rightarrow> nat \<Rightarrow> 8 word list \<Rightarrow> LoadStep list \<times> (LoadError + WeightBlob)" where
  "load compiled_hash required src =
     (case read_hash src of
        None \<Rightarrow> ([ReadHash], Inl TruncatedData)
      | Some (h, rest) \<Rightarrow>
          if h \<noteq> compiled_hash then ([ReadHash], Inl IncompatibleTopology)
          else if length rest < required then ([ReadHash], Inl TruncatedData)
          else ([ReadHash, AllocateBlob required, ReadParameters required],
                Inr \<lparr>parameters = take required rest\<rparr>))"

section \<open>The process: worker threads and the Weight Store\<close>

text \<open>
  Modelled from the spec: what the calls of \<open>main\<close> do to the worker threads and to the
  Weight Store; thread.cpp, evaluate_nnue.cpp and uci.cpp are not among the sources.
  The process has a number of worker threads that are up, the Weight Store (empty until
  it is initialized), and the record of the accesses to the store, oldest first:
  \<open>Initialize n\<close> is a write of the store made while \<open>n\<close> worker threads are up,
  \<open>Evaluate w\<close> an evaluation that reads the store and finds \<open>w\<close>.
\<close>

datatype Access = Initialize nat | Evaluate "WeightBlob option"

record Process =
  workers :: nat
  store :: "WeightBlob option"
  accesses :: "Access list"

text \<open>
  Modelled from the spec: the initialization hook is "an idempotent init()", which loads
  the configured weights \<open>w\<close> into the store when the store is empty and does nothing
  otherwise; an evaluation reads the store and writes nothing ("there is no concurrent
  writer").
\<close>

definition NNUE_init :: "WeightBlob \<Rightarrow> Process \<Rightarrow> Process" where
  "NNUE_init w s =
     (case store s of
        None \<Rightarrow> s\<lparr>store := Some w, accesses := accesses s @ [Initialize (workers s)]\<rparr>
      | Some _ \<Rightarrow> s)"

definition NNUE_evaluate :: "Process \<Rightarrow> Process" where
  "NNUE_evaluate s = s\<lparr>accesses := accesses s @ [Evaluate (store s)]\<rparr>"

text \<open>
  Modelled from the spec: the command loop serves a sequence of commands; as far as the
  store is concerned a command either has a search evaluate a position or runs the
  initialization hook again. \<open>Threads.set(n)\<close> brings the number of worker threads to
  \<open>n\<close>. The other calls of \<open>main\<close> touch neither the threads nor the store.
\<close>

datatype Command = Run_evaluate | Run_init

fun command :: "WeightBlob \<Rightarrow> Command \<Rightarrow> Process \<Rightarrow> Process" where
  "command w Run_evaluate s = NNUE_evaluate s"
| "command w Run_init s = NNUE_init w s"

fun call :: "WeightBlob \<Rightarrow> Command list \<Rightarrow> Call \<Rightarrow> Process \<Rightarrow> Process" where
  "call w cmds (Threads_set n) s = s\<lparr>workers := n\<rparr>"
| "call w cmds Eval_NNUE_init s = NNUE_init w s"
| "call w cmds UCI_loop s = fold (command w) cmds s"
| "call w cmds c s = s"

text \<open>
  The process starts with no worker thread and an empty store, and runs the calls of
  \<open>main\<close> in order; \<open>w\<close> are the configured weights, \<open>cmds\<close> the commands the loop is
  given and \<open>threads\<close> the value of the option \<open>Threads\<close>.
\<close>

definition startup :: Process where
  "startup = \<lparr>workers = 0, store = None, accesses = []\<rparr>"

definition run_main :: "WeightBlob \<Rightarrow> Command list \<Rightarrow> nat \<Rightarrow> Process" where
  "run_main w cmds threads = fold (call w cmds) (main threads) startup"

section \<open>Properties of colours and scores\<close>

text \<open>
  C9. The claim is that \<open>~\<close> swaps the two colours: \<open>~WHITE = BLACK\<close> and
  \<open>~BLACK = WHITE\<close>. With \<open>WHITE = 0\<close> and \<open>BLACK = 1\<close> the operator, which
  computes \<open>c ^ 3\<close>, sends \<open>WHITE\<close> to the value 3 and \<open>BLACK\<close> to the value 2
  (\<open>COLOR_NB\<close>): neither result is a colour, and applying it to a colour never yields the
  other colour.
\<close>

theorem operator_compl_Color_not_toggle:
  "operator_compl_Color WHITE = 3 \<and> operator_compl_Color WHITE \<noteq> BLACK \<and>
   operator_compl_Color BLACK = COLOR_NB \<and> operator_compl_Color BLACK \<noteq> WHITE"
  by (simp add: operator_compl_Color_def WHITE_def BLACK_def COLOR_NB_def)











section \<open>Properties of the architecture hash\<close>

text \<open>
  C2, as stated: the combination of the two component hashes is order-sensitive, so that
  for some pair of distinct component hashes swapping them changes the result. The code
  combines them with exclusive or, and no such pair exists.
\<close>

theorem HashValue_swap_counterexample:
  "\<not> (\<exists>a b. a \<noteq> b \<and> HashValue a b \<noteq> HashValue b a)"
  by (simp add: HashValue_def xor.commute)

text \<open>
  C2, amended: the hash of the architecture is the bitwise exclusive or of the feature
  transformer's hash and the network's hash, a value of the same 32 bits; the
  combination is symmetric, swapping the two component hashes never changes it.
\<close>

theorem HashValue_symmetric:
  "HashValue a b = HashValue b a \<and> (\<forall>n. bit (HashValue a b) n \<longleftrightarrow> (bit a n \<noteq> bit b n))"
  by (simp add: HashValue_def xor.commute bit_xor_iff)

section \<open>Properties of the network structure\<close>

text \<open>
  C4, as stated: the network applies an affine transform to an intermediate width, a
  clipping nonlinearity, a second affine transform to a smaller width and a final affine
  transform to one output. The network of the code does not consist of these four
  stages, whatever the widths \<open>w1\<close> and \<open>w2\<close> (smaller or not).
\<close>

theorem Network_stages_counterexample:
  "\<not> (\<exists>i w1 w2. stages Network = [Affine i w1, Clipped w1, Affine w1 w2, Affine w2 1])"
  by (simp add: Network_def OutputLayer_def HiddenLayer2_def HiddenLayer1_def InputLayer_def)

text \<open>
  C4, amended: the network applies, in order, an affine transform from the 1024
  transformed features to width 16, a clipping nonlinearity, a second affine transform
  to the larger width 32, a second clipping nonlinearity, and a final affine transform to
  a single output value.
\<close>

theorem Network_stages:
  "stages Network = [Affine 1024 16, Clipped 16, Affine 16 32, Clipped 32, Affine 32 1]
   \<and> OutputDimensions Network = 1"
  by (simp add: Network_def OutputLayer_def HiddenLayer2_def HiddenLayer1_def InputLayer_def
      TransformedFeatureDimensions_def)

section \<open>Properties of the deleters\<close>

text \<open>
  C7. Releasing a \<open>LargePagePtr\<close> that holds a buffer runs the object's destructor and
  then \<open>aligned_large_pages_free\<close> on it, and never \<open>std_aligned_free\<close>; releasing an
  \<open>AlignedPtr\<close> runs the destructor and then \<open>std_aligned_free\<close>, and never
  \<open>aligned_large_pages_free\<close>. The handle is empty afterwards, so that releasing it
  again calls nothing: the destructor and the deallocator run exactly once.
\<close>

theorem deleters_release:
  assumes "p \<noteq> nullptr"
  shows "LargePagePtr_reset p = ([Destructor p, aligned_large_pages_free p], nullptr)
       \<and> AlignedPtr_reset p = ([Destructor p, std_aligned_free p], nullptr)
       \<and> (\<forall>q. std_aligned_free q \<notin> set (fst (LargePagePtr_reset p)))
       \<and> (\<forall>q. aligned_large_pages_free q \<notin> set (fst (AlignedPtr_reset p)))
       \<and> fst (LargePagePtr_reset (snd (LargePagePtr_reset p))) = []
       \<and> fst (AlignedPtr_reset (snd (AlignedPtr_reset p))) = []"
  using assms
  by (simp add: LargePagePtr_reset_def AlignedPtr_reset_def unique_ptr_reset_def
      LargePageDeleter_def AlignedDeleter_def)

theorem deleters_release_witness:
  "(4096 :: ptr) \<noteq> nullptr
   \<and> LargePagePtr_reset 4096 = ([Destructor 4096, aligned_large_pages_free 4096], nullptr)
   \<and> AlignedPtr_reset 4096 = ([Destructor 4096, std_aligned_free 4096], nullptr)"
  using deleters_release [of 4096] by (simp add: nullptr_def)

section \<open>Properties of the startup sequence\<close>

text \<open>
  C6, as stated: the initialization of the weights completes before any worker thread
  starts. In \<open>main\<close> the call that brings the threads up, \<open>Threads.set\<close>, comes
  first: with one thread configured, \<open>Eval::NNUE::init\<close> is not among the calls made
  before \<open>Threads.set(1)\<close>.
\<close>

theorem main_NNUE_init_counterexample:
  "Eval_NNUE_init \<notin> set (calls_before (Threads_set 1) (main 1))"
  by (simp add: main_def calls_before_def)

lemma commands_initialized:
  assumes "store s = Some w"
  shows "fold (command w) cmds s =
     s\<lparr>accesses := accesses s
          @ map (\<lambda>c. Evaluate (Some w)) (filter (\<lambda>c. c = Run_evaluate) cmds)\<rparr>"
  using assms
proof (induction cmds arbitrary: s)
  case Nil
  show ?case by simp
next
  case (Cons c cmds)
  show ?case
  proof (cases c)
    case Run_evaluate
    have "store (NNUE_evaluate s) = Some w"
      using Cons.prems by (simp add: NNUE_evaluate_def)
    from Cons.IH [OF this] show ?thesis
      using Cons.prems by (simp add: Run_evaluate NNUE_evaluate_def)
  next
    case Run_init
    have "NNUE_init w s = s"
      using Cons.prems by (simp add: NNUE_init_def)
    with Cons.IH [OF Cons.prems] show ?thesis
      by (simp add: Run_init)
  qed
qed

text \<open>
  C6, amended: the Weight Store is initialized exactly once; that initialization is made
  by the one call of \<open>Eval::NNUE::init\<close> in \<open>main\<close>, after the worker threads were
  brought up by \<open>Threads.set\<close> (all \<open>n\<close> configured threads are up when it runs) and
  before any evaluation; after initialization the store is read-only for the remainder
  of the process: it is never written again, also when the command loop runs the
  initialization hook again, and every evaluation finds the weights as initialized.
\<close>

theorem main_weight_store_accesses:
  "accesses (run_main w cmds n) =
     Initialize n # map (\<lambda>c. Evaluate (Some w)) (filter (\<lambda>c. c = Run_evaluate) cmds)
   \<and> store (run_main w cmds n) = Some w
   \<and> count_list (main n) Eval_NNUE_init = 1"
  by (simp add: run_main_def main_def startup_def NNUE_init_def commands_initialized)

section \<open>Properties of the data structures\<close>

text \<open>
  C5. An accumulator consists of two vectors of \<open>TransformedFeatureDimensions = 512\<close>
  entries, one per perspective, each entry a signed 16-bit integer; of
  \<open>PSQTBuckets = 8\<close> signed 32-bit scalars for each of the two perspectives; and of two
  flags; and of nothing else: two accumulators that agree on these are equal.
\<close>

theorem Accumulator_shape:
  fixes a b :: Accumulator
  shows "card (indices (accumulation a)) = 2
   \<and> card (indices (accumulation a p)) = TransformedFeatureDimensions
   \<and> TransformedFeatureDimensions = 512
   \<and> - (2 ^ 15) \<le> sint (accumulation a p j) \<and> sint (accumulation a p j) < 2 ^ 15
   \<and> card (indices (psqtAccumulation a)) = 2
   \<and> card (indices (psqtAccumulation a p)) = PSQTBuckets
   \<and> PSQTBuckets = 8
   \<and> - (2 ^ 31) \<le> sint (psqtAccumulation a p k) \<and> sint (psqtAccumulation a p k) < 2 ^ 31
   \<and> card (indices (computed a)) = 2
   \<and> (a = b \<longleftrightarrow> accumulation a = accumulation b
        \<and> psqtAccumulation a = psqtAccumulation b \<and> computed a = computed b)"
proof -
  have "- (2 ^ 15) \<le> sint (accumulation a p j)" "sint (accumulation a p j) < 2 ^ 15"
    using sint_ge [of "accumulation a p j"] sint_lt [of "accumulation a p j"] by simp_all
  moreover have "- (2 ^ 31) \<le> sint (psqtAccumulation a p k)"
    "sint (psqtAccumulation a p k) < 2 ^ 31"
    using sint_ge [of "psqtAccumulation a p k"] sint_lt [of "psqtAccumulation a p k"]
    by simp_all
  moreover have "a = b \<longleftrightarrow> accumulation a = accumulation b
        \<and> psqtAccumulation a = psqtAccumulation b \<and> computed a = computed b"
    by auto
  ultimately show ?thesis
    by (simp add: indices_def TransformedFeatureDimensions_def PSQTBuckets_def)
qed

lemma index12: "i < 12 \<Longrightarrow> nat (Rep_bit0 (of_nat i :: 12)) = i"
  by (simp add: bit0.of_nat_eq Abs_bit0_inverse)

lemma piece_changes_DirtyPiece_of:
  assumes "length rs \<le> 12"
  shows "piece_changes (DirtyPiece_of rs) = Some rs"
proof -
  have "map (\<lambda>i. (fst (rs ! nat (Rep_bit0 (of_nat i :: 12))),
                 fst (snd (rs ! nat (Rep_bit0 (of_nat i :: 12)))),
                 snd (snd (rs ! nat (Rep_bit0 (of_nat i :: 12)))))) [0 ..< length rs]
      = map (\<lambda>i. rs ! i) [0 ..< length rs]"
    using assms by (intro map_cong) (simp_all add: index12)
  then show ?thesis
    using assms by (simp add: piece_changes_def DirtyPiece_of_def map_nth)
qed

text \<open>
  C8. A \<open>DirtyPiece\<close> is a bounded list of piece-change records, each naming the piece,
  its source square and its destination square (either may be the sentinel \<open>SQ_NONE\<close>):
  its arrays have 12 entries, which is at least 3; every list of up to 12 records is held
  by some \<open>DirtyPiece\<close>, and no \<open>DirtyPiece\<close> holds more than 12.
\<close>

theorem DirtyPiece_capacity:
  "(length rs \<le> 12 \<longrightarrow>
      (\<exists>dp. dirty_num dp = int (length rs) \<and> piece_changes dp = Some rs))
   \<and> (piece_changes dp' = Some rs' \<longrightarrow>
        length rs' \<le> 12 \<and> int (length rs') = dirty_num dp')
   \<and> card (indices (piece dp')) = 12 \<and> card (indices (from dp')) = 12
   \<and> card (indices (to dp')) = 12 \<and> (3 :: nat) \<le> card (indices (piece dp'))"
proof -
  have "\<exists>dp. dirty_num dp = int (length rs) \<and> piece_changes dp = Some rs"
    if "length rs \<le> 12"
    using piece_changes_DirtyPiece_of [OF that]
    by (intro exI [of _ "DirtyPiece_of rs"]) (simp add: DirtyPiece_of_def)
  moreover have "length rs' \<le> 12 \<and> int (length rs') = dirty_num dp'"
    if "piece_changes dp' = Some rs'"
    using that by (auto simp: piece_changes_def split: if_splits)
  ultimately show ?thesis
    by (simp add: indices_def)
qed

theorem DirtyPiece_capacity_witness:
  "length [(W_PIECE, SQ_NONE, 8 :: Square), (B_PIECE, 9, SQ_NONE)] \<le> 12
   \<and> (\<exists>dp. dirty_num dp = 2
         \<and> piece_changes dp = Some [(W_PIECE, SQ_NONE, 8), (B_PIECE, 9, SQ_NONE)])
   \<and> piece_changes (DirtyPiece_of [(W_PIECE, SQ_NONE, 8), (B_PIECE, 9, SQ_NONE)])
        = Some [(W_PIECE, SQ_NONE, 8), (B_PIECE, 9, SQ_NONE)]"
  using DirtyPiece_capacity [of "[(W_PIECE, SQ_NONE, 8), (B_PIECE, 9, SQ_NONE)]"
      "DirtyPiece_of [(W_PIECE, SQ_NONE, 8), (B_PIECE, 9, SQ_NONE)]"
      "[(W_PIECE, SQ_NONE, 8), (B_PIECE, 9, SQ_NONE)]"]
  by (simp add: piece_changes_DirtyPiece_of)

section \<open>Incremental update against full refresh\<close>





























section \<open>Properties of loading\<close>

lemma read_hash_header:
  assumes "read_hash src = Some (h, rest)"
  shows "src = take 4 src @ rest" and "read_hash (take 4 src @ rest') = Some (h, rest')"
  using assms by (auto simp: read_hash_def split: list.splits)

text \<open>
  C3. Loading a weight source whose hash field differs from the hash of the compiled
  architecture fails with \<open>IncompatibleTopology\<close>. The only step taken is reading the
  hash field: no blob is allocated and no parameter byte is read, and the outcome is the
  same whatever bytes follow the hash field.
\<close>

theorem load_hash_mismatch:
  assumes "read_hash src = Some (h, rest)" and "h \<noteq> HashValue fh nh"
  shows "load (HashValue fh nh) required src = ([ReadHash], Inl IncompatibleTopology)
       \<and> (\<forall>rest'. load (HashValue fh nh) required (take 4 src @ rest')
              = ([ReadHash], Inl IncompatibleTopology))"
  using assms read_hash_header(2) [OF assms(1)] by (simp add: load_def)

theorem load_hash_mismatch_witness:
  "read_hash [1, 0, 0, 0, 5, 6, 7] = Some (1, [5, 6, 7]) \<and> (1 :: 32 word) \<noteq> HashValue 2 1
   \<and> load (HashValue 2 1) 3 [1, 0, 0, 0, 5, 6, 7] = ([ReadHash], Inl IncompatibleTopology)
   \<and> load 1 3 [1, 0, 0, 0, 5, 6, 7]
       = ([ReadHash, AllocateBlob 3, ReadParameters 3], Inr \<lparr>parameters = [5, 6, 7]\<rparr>)"
proof -
  have h: "read_hash [1, 0, 0, 0, 5, 6, 7] = Some (1, [5, 6, 7])"
    by (simp add: read_hash_def)
  have n: "(1 :: 32 word) \<noteq> HashValue 2 1"
    by (simp add: HashValue_def)
  have "load 1 3 [1, 0, 0, 0, 5, 6, 7]
       = ([ReadHash, AllocateBlob 3, ReadParameters 3], Inr \<lparr>parameters = [5, 6, 7]\<rparr>)"
    by (simp add: load_def h)
  with h n load_hash_mismatch [OF h n, of 3] show ?thesis
    by simp
qed

end
